theory Spec2Isabelle
  imports Complex_Main "HOL-Library.Sublist" "HOL-Library.Word"
begin

section \<open>JavaScript values\<close>

text \<open>
  The unified transcription client of \<^verbatim>\<open>aisuite-js/src/asr\<close> works on untyped
  JavaScript data: requests are open-ended objects, backend responses have type
  \<^verbatim>\<open>any\<close>. The embedding therefore has one datatype of JavaScript values.

  \<^item> Numbers are exact: a finite number is a \<^typ>\<open>real\<close>, so IEEE rounding is not
    represented; the three non-finite doubles are constructors of their own.
  \<^item> Strings are byte strings (\<^typ>\<open>string\<close>).
  \<^item> An object is the list of its own enumerable entries in the order
    \<^verbatim>\<open>Object.entries\<close> yields them; property names are assumed to be ordinary names
    (no array indices, no \<^verbatim>\<open>__proto__\<close>, nothing shadowing \<^verbatim>\<open>Object.prototype\<close>).
  \<^item> \<^verbatim>\<open>Buffer\<close> and \<^verbatim>\<open>Uint8Array\<close> carry their bytes; a read stream and a
    \<^verbatim>\<open>File\<close> are the two values the OpenAI provider builds from the audio input.
\<close>

type_synonym bytes = "8 word list"

datatype jsnum = Fin real | PInf | NInf | NaN

datatype jsval =
    JUndef
  | JNull
  | JBool bool
  | JNum jsnum
  | JStr string
  | JBuffer bytes
  | JUint8Array bytes
  | JArr "jsval list"
  | JObj "(string \<times> jsval) list"
  | JStream string
  | JFile bytes string string

type_synonym jsobj = "(string \<times> jsval) list"

text \<open>Truthiness, as used by \<^verbatim>\<open>if (v)\<close>, \<^verbatim>\<open>!v\<close>, \<^verbatim>\<open>a || b\<close> and \<^verbatim>\<open>a && b\<close>.\<close>

fun truthy :: "jsval \<Rightarrow> bool" where
  "truthy JUndef = False"
| "truthy JNull = False"
| "truthy (JBool b) = b"
| "truthy (JNum (Fin r)) = (r \<noteq> 0)"
| "truthy (JNum NaN) = False"
| "truthy (JNum PInf) = True"
| "truthy (JNum NInf) = True"
| "truthy (JStr s) = (s \<noteq> [])"
| "truthy (JBuffer bs) = True"
| "truthy (JUint8Array bs) = True"
| "truthy (JArr xs) = True"
| "truthy (JObj kvs) = True"
| "truthy (JStream p) = True"
| "truthy (JFile bs n t) = True"

fun nullish :: "jsval \<Rightarrow> bool" where
  "nullish JUndef = True"
| "nullish JNull = True"
| "nullish v = False"

text \<open>\<^verbatim>\<open>a || b\<close>\<close>

definition js_or :: "jsval \<Rightarrow> jsval \<Rightarrow> jsval" where
  "js_or a b = (if truthy a then a else b)"

text \<open>Own-property read \<^verbatim>\<open>o[k]\<close> and write \<^verbatim>\<open>o[k] = v\<close> on an object: a write to an
  existing key keeps the key's position, a write to a new key appends it
  (\<^verbatim>\<open>Map.prototype.set\<close> orders its keys the same way).\<close>

definition obj_get :: "jsobj \<Rightarrow> string \<Rightarrow> jsval" where
  "obj_get kvs k = (case map_of kvs k of None \<Rightarrow> JUndef | Some v \<Rightarrow> v)"

fun obj_set :: "(string \<times> 'v) list \<Rightarrow> string \<Rightarrow> 'v \<Rightarrow> (string \<times> 'v) list" where
  "obj_set [] k v = [(k, v)]"
| "obj_set ((k', v') # kvs) k v =
     (if k' = k then (k, v) # kvs else (k', v') # obj_set kvs k v)"


text \<open>\<^verbatim>\<open>key.startsWith(p)\<close>; \<^verbatim>\<open>key.substring(n)\<close> is \<^term>\<open>drop n key\<close>.\<close>

definition startsWith :: "string \<Rightarrow> string \<Rightarrow> bool" where
  "startsWith s p = (take (length p) s = p)"

section \<open>Exceptions and the error taxonomy (core/errors.ts)\<close>

record asr_error =
  name :: string
  message :: string
  provider :: string
  code :: "string option"

definition ASRError :: "string \<Rightarrow> string \<Rightarrow> string option \<Rightarrow> asr_error" where
  "ASRError msg prov c = \<lparr>name = ''ASRError'', message = msg, provider = prov, code = c\<rparr>"

text \<open>A template fragment \<^verbatim>\<open>'${s}'\<close>: the string between single quotes.\<close>

definition squote :: "string \<Rightarrow> string" where
  "squote s = CHR 0x27 # s @ [CHR 0x27]"

definition UnsupportedParameterError :: "string \<Rightarrow> string \<Rightarrow> asr_error" where
  "UnsupportedParameterError parameter prov =
     (ASRError (''Parameter '' @ squote parameter @ '' is not supported by provider '' @ squote prov)
        prov (Some ''UNSUPPORTED_PARAMETER''))
     \<lparr>name := ''UnsupportedParameterError''\<rparr>"

text \<open>\<^verbatim>\<open>xs.join(sep)\<close> on an array of strings.\<close>

fun join :: "string \<Rightarrow> string list \<Rightarrow> string" where
  "join sep [] = []"
| "join sep [x] = x"
| "join sep (x # y # ys) = x @ sep @ join sep (y # ys)"


definition AudioProcessingError :: "string \<Rightarrow> string \<Rightarrow> asr_error" where
  "AudioProcessingError msg prov =
     (ASRError msg prov (Some ''AUDIO_PROCESSING_ERROR''))\<lparr>name := ''AudioProcessingError''\<rparr>"

text \<open>
  What a \<^verbatim>\<open>throw\<close> (or a rejected promise) carries: an \<^verbatim>\<open>ASRError\<close> or one of its
  subclasses; any other \<^verbatim>\<open>Error\<close>, with its class name and message; or a value that is
  not an \<^verbatim>\<open>Error\<close> at all.
\<close>

datatype exn =
    ASR asr_error
  | Err string string
  | Thrown jsval

section \<open>Model identifier parser (core/model-parser.ts)\<close>

text \<open>\<^verbatim>\<open>s.split(c)\<close> for a one-character separator: never the empty array.\<close>

fun split :: "char \<Rightarrow> string \<Rightarrow> string list" where
  "split c [] = [[]]"
| "split c (x # xs) =
     (if x = c then [] # split c xs
      else (case split c xs of [] \<Rightarrow> [[x]] | y # ys \<Rightarrow> (x # y) # ys))"

record parsed_model =
  pm_provider :: string
  pm_model :: string

definition parseModel :: "string \<Rightarrow> exn + parsed_model" where
  "parseModel model =
     (let parts = split CHR '':'' model in
      if length parts \<noteq> 2 then
        Inl (Err ''Error''
          (''Invalid model format: \"'' @ model @ ''\". Expected format: \"provider:model\"''))
      else
        let provider = parts ! 0; modelName = parts ! 1 in
        if provider = [] \<or> modelName = [] then
          Inl (Err ''Error''
            (''Invalid model format: \"'' @ model
               @ ''\". Both provider and model name are required.''))
        else Inr \<lparr>pm_provider = provider, pm_model = modelName\<rparr>)"

section \<open>Shared types (types/common.ts, providers/*/types.ts)\<close>

text \<open>
  \<^verbatim>\<open>Word\<close>, \<^verbatim>\<open>Segment\<close> and \<^verbatim>\<open>TranscriptionResult\<close>. The adapters copy fields of an
  \<^verbatim>\<open>any\<close>-typed response into them unchecked, so at run time every field holds an
  arbitrary value; a field the object literal leaves out is \<^term>\<open>JUndef\<close>.
\<close>

record Word =
  w_text :: jsval
  w_start :: jsval
  w_end :: jsval
  w_speaker :: jsval
  w_confidence :: jsval

record Segment =
  s_text :: jsval
  s_start :: jsval
  s_end :: jsval
  s_speaker :: jsval

record TranscriptionResult =
  r_text :: jsval
  r_language :: jsval
  r_confidence :: jsval
  r_words :: "Word list"
  r_segments :: "Segment list"

record OpenAIASRConfig =
  oa_apiKey :: string
  oa_baseURL :: "string option"
  oa_organization :: "string option"

record DeepgramConfig =
  dg_apiKey :: string
  dg_baseURL :: "string option"

record GoogleCloudConfig =
  projectId :: string
  region :: "string option"
  keyFilename :: "string option"
  credentials :: "jsval option"

record ASRProviderConfigs =
  openai :: "OpenAIASRConfig option"
  deepgram :: "DeepgramConfig option"
  google :: "GoogleCloudConfig option"

section \<open>The platform: effects and the environment\<close>

text \<open>
  The second argument of \<^verbatim>\<open>fetch\<close>. \<^term>\<open>signal\<close> is \<^term>\<open>None\<close> for
  \<^verbatim>\<open>undefined\<close> and \<^term>\<open>Some t\<close> for \<^verbatim>\<open>AbortSignal.timeout(t)\<close>.
\<close>

record fetch_init =
  http_method :: string
  headers :: "(string \<times> string) list"
  body :: bytes
  signal :: "jsval option"

text \<open>What the code reads of a \<^verbatim>\<open>fetch\<close> response; \<^term>\<open>json\<close> is the outcome of
  \<^verbatim>\<open>await response.json()\<close>.\<close>

record fetch_response =
  ok :: bool
  status :: nat
  statusText :: string
  json :: "exn + jsval"

text \<open>
  Every call that leaves the program is recorded, in order, with its arguments:
  \<^verbatim>\<open>console.warn\<close>, \<^verbatim>\<open>fs.readFileSync\<close>, \<^verbatim>\<open>fs.createReadStream\<close>, \<^verbatim>\<open>fetch\<close> and the
  OpenAI SDK's \<^verbatim>\<open>client.audio.transcriptions.create\<close> (with the configuration of the
  SDK client and the request body; the code passes no second argument).
\<close>

datatype effect =
    Warn string
  | ReadFileSync string
  | CreateReadStream string
  | Fetch string fetch_init
  | TranscriptionsCreate OpenAIASRConfig jsobj

text \<open>
  What those calls answer is not part of the repository, so it is a parameter: the file
  system, the network, the SDK, and the engine's \<^verbatim>\<open>Number.prototype.toString\<close> on
  finite numbers.
\<close>

record env =
  readFileSync :: "string \<Rightarrow> exn + bytes"
  fetch :: "string \<Rightarrow> fetch_init \<Rightarrow> exn + fetch_response"
  transcriptions_create :: "OpenAIASRConfig \<Rightarrow> jsobj \<Rightarrow> exn + jsval"
  number_toString :: "real \<Rightarrow> string"

text \<open>A computation: the effects performed, then an exception or a value.\<close>

type_synonym 'a comp = "effect list \<times> (exn + 'a)"

definition bindE :: "exn + 'a \<Rightarrow> ('a \<Rightarrow> exn + 'b) \<Rightarrow> exn + 'b" where
  "bindE m f = (case m of Inl e \<Rightarrow> Inl e | Inr x \<Rightarrow> f x)"

fun mapE :: "('a \<Rightarrow> exn + 'b) \<Rightarrow> 'a list \<Rightarrow> exn + 'b list" where
  "mapE f [] = Inr []"
| "mapE f (x # xs) = bindE (f x) (\<lambda>y. bindE (mapE f xs) (\<lambda>ys. Inr (y # ys)))"

fun foldE :: "('s \<Rightarrow> 'a \<Rightarrow> exn + 's) \<Rightarrow> 's \<Rightarrow> 'a list \<Rightarrow> exn + 's" where
  "foldE f s [] = Inr s"
| "foldE f s (x # xs) = bindE (f s x) (\<lambda>s'. foldE f s' xs)"

section \<open>Built-in operations the adapters use\<close>

subsection \<open>Property access\<close>

text \<open>\<^verbatim>\<open>v?.k\<close>: \<^verbatim>\<open>undefined\<close> unless \<^verbatim>\<open>v\<close> is an object with that entry (none of
  the names the adapters read is a built-in property of a string, number or array).\<close>

definition js_prop :: "jsval \<Rightarrow> string \<Rightarrow> jsval" where
  "js_prop v k = (case v of JObj kvs \<Rightarrow> obj_get kvs k | _ \<Rightarrow> JUndef)"

text \<open>\<^verbatim>\<open>v.k\<close>: a \<^verbatim>\<open>TypeError\<close> on \<^verbatim>\<open>undefined\<close> and \<^verbatim>\<open>null\<close> (message as V8 words it).\<close>

definition get_prop :: "jsval \<Rightarrow> string \<Rightarrow> exn + jsval" where
  "get_prop v k =
     (case v of
        JUndef \<Rightarrow> Inl (Err ''TypeError''
          (''Cannot read properties of undefined (reading '' @ squote k @ '')''))
      | JNull \<Rightarrow> Inl (Err ''TypeError''
          (''Cannot read properties of null (reading '' @ squote k @ '')''))
      | _ \<Rightarrow> Inr (js_prop v k))"

definition byte_num :: "8 word \<Rightarrow> jsval" where
  "byte_num b = JNum (Fin (real (unat b)))"

text \<open>\<^verbatim>\<open>v?.[0]\<close>, and \<^verbatim>\<open>v[0]\<close> on a value known not to be nullish.\<close>

definition idx0 :: "jsval \<Rightarrow> jsval" where
  "idx0 v =
     (case v of
        JArr xs \<Rightarrow> (case xs of [] \<Rightarrow> JUndef | x # _ \<Rightarrow> x)
      | JStr s \<Rightarrow> (case s of [] \<Rightarrow> JUndef | c # _ \<Rightarrow> JStr [c])
      | JObj kvs \<Rightarrow> obj_get kvs ''0''
      | JBuffer bs \<Rightarrow> (case bs of [] \<Rightarrow> JUndef | b # _ \<Rightarrow> byte_num b)
      | JUint8Array bs \<Rightarrow> (case bs of [] \<Rightarrow> JUndef | b # _ \<Rightarrow> byte_num b)
      | _ \<Rightarrow> JUndef)"

text \<open>The elements \<^verbatim>\<open>v.forEach(f)\<close> visits, for a truthy \<^verbatim>\<open>v\<close>: those of an array or a
  typed array; any other value has no callable \<^verbatim>\<open>forEach\<close>.\<close>

definition forEach_items :: "jsval \<Rightarrow> exn + jsval list" where
  "forEach_items v =
     (case v of
        JArr xs \<Rightarrow> Inr xs
      | JBuffer bs \<Rightarrow> Inr (map byte_num bs)
      | JUint8Array bs \<Rightarrow> Inr (map byte_num bs)
      | _ \<Rightarrow> Inl (Err ''TypeError'' ''forEach is not a function''))"

subsection \<open>Conversion to string\<close>

fun digit_char :: "nat \<Rightarrow> char" where
  "digit_char n = char_of (48 + n)"

fun nat_toString :: "nat \<Rightarrow> string" where
  "nat_toString n = (if n < 10 then [digit_char n] else nat_toString (n div 10) @ [digit_char (n mod 10)])"

text \<open>\<^verbatim>\<open>buf.toString()\<close> decodes UTF-8; strings being byte strings, the bytes themselves.\<close>

definition utf8 :: "bytes \<Rightarrow> string" where
  "utf8 bs = map (\<lambda>b. char_of (unat b)) bs"

definition jsnum_toString :: "(real \<Rightarrow> string) \<Rightarrow> jsnum \<Rightarrow> string" where
  "jsnum_toString n2s n =
     (case n of Fin r \<Rightarrow> n2s r | PInf \<Rightarrow> ''Infinity'' | NInf \<Rightarrow> ''-Infinity'' | NaN \<Rightarrow> ''NaN'')"

text \<open>\<^verbatim>\<open>v.toString()\<close> on a value that is not nullish, \<^verbatim>\<open>String(v)\<close> and the
  conversion \<^verbatim>\<open>v + ' '\<close> applies, which agree on these values.\<close>

fun js_toString :: "(real \<Rightarrow> string) \<Rightarrow> jsval \<Rightarrow> string" where
  "js_toString n2s JUndef = ''undefined''"
| "js_toString n2s JNull = ''null''"
| "js_toString n2s (JBool b) = (if b then ''true'' else ''false'')"
| "js_toString n2s (JNum n) = jsnum_toString n2s n"
| "js_toString n2s (JStr s) = s"
| "js_toString n2s (JBuffer bs) = utf8 bs"
| "js_toString n2s (JUint8Array bs) = join '','' (map (\<lambda>b. nat_toString (unat b)) bs)"
| "js_toString n2s (JArr xs) =
     join '','' (map (\<lambda>x. if nullish x then [] else js_toString n2s x) xs)"
| "js_toString n2s (JObj kvs) = ''[object Object]''"
| "js_toString n2s (JStream p) = ''[object Object]''"
| "js_toString n2s (JFile bs n t) = ''[object File]''"

text \<open>\<^verbatim>\<open>v?.toString()\<close>\<close>

definition opt_toString :: "(real \<Rightarrow> string) \<Rightarrow> jsval \<Rightarrow> jsval" where
  "opt_toString n2s v = (if nullish v then JUndef else JStr (js_toString n2s v))"

subsection \<open>Numbers\<close>

fun num_neg :: "jsnum \<Rightarrow> jsnum" where
  "num_neg (Fin r) = Fin (- r)"
| "num_neg PInf = NInf"
| "num_neg NInf = PInf"
| "num_neg NaN = NaN"

text \<open>\<^verbatim>\<open>a + b\<close> and \<^verbatim>\<open>a / b\<close> on numbers (the sign of a zero is not represented).\<close>

fun num_add :: "jsnum \<Rightarrow> jsnum \<Rightarrow> jsnum" where
  "num_add (Fin a) (Fin b) = Fin (a + b)"
| "num_add NaN y = NaN"
| "num_add x NaN = NaN"
| "num_add PInf NInf = NaN"
| "num_add NInf PInf = NaN"
| "num_add PInf y = PInf"
| "num_add NInf y = NInf"
| "num_add x PInf = PInf"
| "num_add x NInf = NInf"

fun num_div :: "jsnum \<Rightarrow> jsnum \<Rightarrow> jsnum" where
  "num_div (Fin a) (Fin b) =
     (if b \<noteq> 0 then Fin (a / b) else if a = 0 then NaN else if 0 < a then PInf else NInf)"
| "num_div NaN y = NaN"
| "num_div x NaN = NaN"
| "num_div (Fin a) y = Fin 0"
| "num_div x (Fin b) = (if (x = PInf) = (0 \<le> b) then PInf else NInf)"
| "num_div x y = NaN"

subsection \<open>parseFloat and trim\<close>

definition is_digit :: "char \<Rightarrow> bool" where
  "is_digit c = (48 \<le> (of_char c :: nat) \<and> (of_char c :: nat) \<le> 57)"

definition digit_val :: "char \<Rightarrow> nat" where
  "digit_val c = of_char c - 48"

definition digits_val :: "string \<Rightarrow> nat" where
  "digits_val ds = foldl (\<lambda>a c. 10 * a + digit_val c) 0 ds"

text \<open>White space and line terminators, as far as they are single bytes.\<close>

definition is_space :: "char \<Rightarrow> bool" where
  "is_space c = ((of_char c :: nat) \<in> {9, 10, 11, 12, 13, 32})"

definition pow10 :: "int \<Rightarrow> real" where
  "pow10 e = (if 0 \<le> e then 10 ^ nat e else 1 / 10 ^ nat (- e))"

text \<open>The value of an optional \<^verbatim>\<open>ExponentPart\<close> at the head of a string.\<close>

definition parse_exponent :: "string \<Rightarrow> int" where
  "parse_exponent s =
     (case s of
        [] \<Rightarrow> 0
      | e # t \<Rightarrow>
          if e = CHR ''e'' \<or> e = CHR ''E'' then
            (case t of
               [] \<Rightarrow> 0
             | c # u \<Rightarrow>
                 if c = CHR ''-'' then - int (digits_val (takeWhile is_digit u))
                 else if c = CHR ''+'' then int (digits_val (takeWhile is_digit u))
                 else int (digits_val (takeWhile is_digit t)))
          else 0)"

text \<open>The longest prefix that is an unsigned \<^verbatim>\<open>StrDecimalLiteral\<close>.\<close>

definition parse_decimal :: "string \<Rightarrow> jsnum" where
  "parse_decimal s =
     (if startsWith s ''Infinity'' then PInf
      else
        let ip = takeWhile is_digit s;
            r1 = dropWhile is_digit s;
            fp = (case r1 of [] \<Rightarrow> [] | c # t \<Rightarrow> if c = CHR ''.'' then takeWhile is_digit t else []);
            r2 = (case r1 of [] \<Rightarrow> [] | c # t \<Rightarrow> if c = CHR ''.'' then dropWhile is_digit t else r1)
        in if ip = [] \<and> fp = [] then NaN
           else Fin (real (digits_val (ip @ fp)) / 10 ^ length fp * pow10 (parse_exponent r2)))"

definition parseFloat_str :: "string \<Rightarrow> jsnum" where
  "parseFloat_str s =
     (case dropWhile is_space s of
        [] \<Rightarrow> NaN
      | c # u \<Rightarrow>
          if c = CHR ''-'' then num_neg (parse_decimal u)
          else if c = CHR ''+'' then parse_decimal u
          else parse_decimal (c # u))"

text \<open>
  \<^verbatim>\<open>parseFloat(v)\<close> parses \<^verbatim>\<open>String(v)\<close>. On a number that is the number itself; the
  string of an array starts with the string of its first element, followed by a comma
  or the end, which no numeric literal goes beyond.
\<close>

fun parseFloat :: "jsval \<Rightarrow> jsnum" where
  "parseFloat (JNum n) = n"
| "parseFloat (JStr s) = parseFloat_str s"
| "parseFloat (JBuffer bs) = parseFloat_str (utf8 bs)"
| "parseFloat (JUint8Array bs) = (case bs of [] \<Rightarrow> NaN | b # _ \<Rightarrow> Fin (real (unat b)))"
| "parseFloat (JArr xs) =
     (case xs of [] \<Rightarrow> NaN | x # _ \<Rightarrow> if nullish x then NaN else parseFloat x)"
| "parseFloat v = NaN"

text \<open>\<^verbatim>\<open>s.trim()\<close>\<close>

definition trim :: "string \<Rightarrow> string" where
  "trim s = rev (dropWhile is_space (rev (dropWhile is_space s)))"

subsection \<open>URLSearchParams\<close>

text \<open>The \<^verbatim>\<open>application/x-www-form-urlencoded\<close> serialisation of a list of pairs.\<close>

definition hex_digit :: "nat \<Rightarrow> char" where
  "hex_digit n = (if n < 10 then char_of (48 + n) else char_of (55 + n))"

definition urlencode_byte :: "char \<Rightarrow> string" where
  "urlencode_byte c =
     (let n = (of_char c :: nat) in
      if (48 \<le> n \<and> n \<le> 57) \<or> (65 \<le> n \<and> n \<le> 90) \<or> (97 \<le> n \<and> n \<le> 122)
         \<or> n \<in> {42, 45, 46, 95} then [c]
      else if n = 32 then ''+''
      else [CHR ''%'', hex_digit (n div 16), hex_digit (n mod 16)])"

definition urlencode :: "string \<Rightarrow> string" where
  "urlencode s = concat (map urlencode_byte s)"

definition URLSearchParams_toString :: "(string \<times> string) list \<Rightarrow> string" where
  "URLSearchParams_toString ps =
     join ''&'' (map (\<lambda>(k, v). urlencode k @ ''='' @ urlencode v) ps)"

subsection \<open>Sequencing computations, try and catch\<close>

definition bindC :: "'a comp \<Rightarrow> ('a \<Rightarrow> 'b comp) \<Rightarrow> 'b comp" where
  "bindC m f =
     (case snd m of
        Inl e \<Rightarrow> (fst m, Inl e)
      | Inr x \<Rightarrow> (fst m @ fst (f x), snd (f x)))"

text \<open>
  The \<^verbatim>\<open>catch\<close> block all three \<^verbatim>\<open>transcribe\<close> methods end with: an \<^verbatim>\<open>ASRError\<close>
  is thrown again as it is, anything else becomes an \<^verbatim>\<open>ASRError\<close> with code
  \<^verbatim>\<open>API_ERROR\<close> whose message is the provider's label followed by the message of the
  \<^verbatim>\<open>Error\<close>, or by \<^verbatim>\<open>Unknown error\<close>.
\<close>

definition catch_wrap :: "string \<Rightarrow> string \<Rightarrow> 'a comp \<Rightarrow> 'a comp" where
  "catch_wrap label this_name m =
     (case snd m of
        Inr x \<Rightarrow> m
      | Inl (ASR e) \<Rightarrow> m
      | Inl (Err n msg) \<Rightarrow> (fst m, Inl (ASR (ASRError (label @ msg) this_name (Some ''API_ERROR''))))
      | Inl (Thrown v) \<Rightarrow>
          (fst m, Inl (ASR (ASRError (label @ ''Unknown error'') this_name (Some ''API_ERROR'')))))"

section \<open>OpenAI provider (providers/openai)\<close>

definition OpenAI_name :: string where
  "OpenAI_name = ''openai''"

definition OpenAI_supported :: "string list" where
  "OpenAI_supported = [''language'', ''timestamps'', ''temperature'', ''prompt'', ''response_format'']"

definition OpenAI_unsupported :: "string list" where
  "OpenAI_unsupported = [''word_confidence'', ''speaker_labels'']"

text \<open>The loop over \<^verbatim>\<open>Object.entries(params)\<close>: the value of an entry is never read.\<close>

fun OpenAI_validateParams :: "jsval \<Rightarrow> jsobj \<Rightarrow> unit comp" where
  "OpenAI_validateParams model [] = ([], Inr ())"
| "OpenAI_validateParams model ((key, value) # rest) =
     (if key \<in> set OpenAI_unsupported then
        ([], Inl (ASR (UnsupportedParameterError key OpenAI_name)))
      else
        bindC
          (if key \<notin> set OpenAI_supported \<and> \<not> startsWith key ''openai_'' then
             ([Warn (''Parameter '' @ squote key @ '' may not be supported by OpenAI ASR'')], Inr ())
           else ([], Inr ()))
          (\<lambda>_. OpenAI_validateParams model rest))"

definition OpenAI_translate_entry :: "jsobj \<Rightarrow> string \<times> jsval \<Rightarrow> jsobj" where
  "OpenAI_translate_entry translated kv =
     (case kv of (key, value) \<Rightarrow>
        if key = ''language'' then obj_set translated ''language'' value
        else if key = ''timestamps'' then
          (if truthy value then obj_set translated ''response_format'' (JStr ''verbose_json'')
           else translated)
        else if key = ''temperature'' then obj_set translated ''temperature'' value
        else if startsWith key ''openai_'' then obj_set translated (drop 7 key) value
        else obj_set translated key value)"

definition OpenAI_translateParams :: "jsval \<Rightarrow> jsobj \<Rightarrow> jsobj" where
  "OpenAI_translateParams model params = foldl OpenAI_translate_entry [] params"

text \<open>The callbacks of \<^verbatim>\<open>adaptResponse\<close> (providers/openai/adapters.ts): reading the
  first field of a \<^verbatim>\<open>null\<close> element throws, after that nothing can.\<close>

definition OpenAI_word :: "jsval \<Rightarrow> exn + Word" where
  "OpenAI_word w =
     bindE (get_prop w ''word'') (\<lambda>t.
       Inr \<lparr>w_text = t, w_start = js_prop w ''start'', w_end = js_prop w ''end'',
            w_speaker = JUndef, w_confidence = js_prop w ''confidence''\<rparr>)"

definition OpenAI_segment :: "jsval \<Rightarrow> exn + Segment" where
  "OpenAI_segment sg =
     bindE (get_prop sg ''text'') (\<lambda>t.
       Inr \<lparr>s_text = t, s_start = js_prop sg ''start'', s_end = js_prop sg ''end'',
            s_speaker = JUndef\<rparr>)"

definition OpenAI_adaptResponse :: "jsval \<Rightarrow> exn + TranscriptionResult" where
  "OpenAI_adaptResponse response =
     bindE (get_prop response ''words'') (\<lambda>rw.
     bindE (if truthy rw then bindE (forEach_items rw) (mapE OpenAI_word) else Inr []) (\<lambda>ws.
     bindE (if truthy (js_prop response ''segments'')
            then bindE (forEach_items (js_prop response ''segments'')) (mapE OpenAI_segment)
            else Inr []) (\<lambda>sgs.
       Inr \<lparr>r_text = js_prop response ''text'',
            r_language = js_or (js_prop response ''language'') (JStr ''unknown''),
            r_confidence = js_prop response ''confidence'',
            r_words = ws, r_segments = sgs\<rparr>)))"

text \<open>A path becomes a read stream, bytes become a \<^verbatim>\<open>File\<close>, anything else is taken
  as it is.\<close>

definition OpenAI_audioFile :: "jsval \<Rightarrow> jsval comp" where
  "OpenAI_audioFile file =
     (case file of
        JStr path \<Rightarrow> ([CreateReadStream path], Inr (JStream path))
      | JBuffer bs \<Rightarrow> ([], Inr (JFile bs ''audio.wav'' ''audio/wav''))
      | JUint8Array bs \<Rightarrow> ([], Inr (JFile bs ''audio.wav'' ''audio/wav''))
      | _ \<Rightarrow> ([], Inr file))"

text \<open>\<^verbatim>\<open>{ file: audioFile, model: request.model, ...translatedParams }\<close>\<close>

definition OpenAI_request :: "jsval \<Rightarrow> jsval \<Rightarrow> jsobj \<Rightarrow> jsobj" where
  "OpenAI_request audioFile model translatedParams =
     foldl (\<lambda>obj (k, v). obj_set obj k v) [(''file'', audioFile), (''model'', model)]
       translatedParams"

text \<open>\<^verbatim>\<open>transcribe(request, options)\<close>: \<^verbatim>\<open>options\<close> is not used.\<close>

definition OpenAI_transcribe ::
  "env \<Rightarrow> OpenAIASRConfig \<Rightarrow> jsobj \<Rightarrow> jsobj option \<Rightarrow> TranscriptionResult comp" where
  "OpenAI_transcribe env this request options =
     catch_wrap ''OpenAI ASR error: '' OpenAI_name
       (bindC (OpenAI_validateParams (obj_get request ''model'') request) (\<lambda>_.
        bindC (OpenAI_audioFile (obj_get request ''file'')) (\<lambda>audioFile.
          let openaiRequest =
                OpenAI_request audioFile (obj_get request ''model'')
                  (OpenAI_translateParams (obj_get request ''model'') request)
          in bindC ([TranscriptionsCreate this openaiRequest],
                    transcriptions_create env this openaiRequest)
               (\<lambda>response. ([], OpenAI_adaptResponse response)))))"

section \<open>Deepgram provider (providers/deepgram)\<close>

record DeepgramASRProvider =
  apiKey :: string
  baseURL :: string

definition Deepgram_name :: string where
  "Deepgram_name = ''deepgram''"


definition Deepgram_supported :: "string list" where
  "Deepgram_supported =
     [''language'', ''timestamps'', ''word_confidence'', ''speaker_labels'',
      ''smart_format'', ''punctuate'', ''diarize'', ''utterances'']"

fun Deepgram_validateParams :: "jsval \<Rightarrow> jsobj \<Rightarrow> unit comp" where
  "Deepgram_validateParams model [] = ([], Inr ())"
| "Deepgram_validateParams model ((key, value) # rest) =
     bindC
       (if key \<notin> set Deepgram_supported \<and> \<not> startsWith key ''deepgram_'' then
          ([Warn (''Parameter '' @ squote key @ '' may not be supported by Deepgram ASR'')], Inr ())
        else ([], Inr ()))
       (\<lambda>_. Deepgram_validateParams model rest)"

definition Deepgram_translate_entry :: "jsobj \<Rightarrow> string \<times> jsval \<Rightarrow> jsobj" where
  "Deepgram_translate_entry translated kv =
     (case kv of (key, value) \<Rightarrow>
        if key = ''language'' then obj_set translated ''language'' value
        else if key = ''timestamps'' then
          (if truthy value then obj_set translated ''utterances'' (JBool True) else translated)
        else if key = ''word_confidence'' then
          (if truthy value then obj_set translated ''smart_format'' (JBool True) else translated)
        else if key = ''speaker_labels'' then
          (if truthy value then obj_set translated ''diarize'' (JBool True) else translated)
        else if startsWith key ''deepgram_'' then obj_set translated (drop 9 key) value
        else obj_set translated key value)"

definition Deepgram_translateParams :: "jsval \<Rightarrow> jsobj \<Rightarrow> jsobj" where
  "Deepgram_translateParams model params = foldl Deepgram_translate_entry [] params"

definition Deepgram_word :: "(real \<Rightarrow> string) \<Rightarrow> jsval \<Rightarrow> exn + Word" where
  "Deepgram_word n2s w =
     bindE (get_prop w ''word'') (\<lambda>t.
       Inr \<lparr>w_text = t, w_start = js_prop w ''start'', w_end = js_prop w ''end'',
            w_speaker = opt_toString n2s (js_prop w ''speaker''),
            w_confidence = js_prop w ''confidence''\<rparr>)"

definition Deepgram_segment :: "(real \<Rightarrow> string) \<Rightarrow> jsval \<Rightarrow> exn + Segment" where
  "Deepgram_segment n2s utterance =
     bindE (get_prop utterance ''transcript'') (\<lambda>t.
       Inr \<lparr>s_text = t, s_start = js_prop utterance ''start'', s_end = js_prop utterance ''end'',
            s_speaker = opt_toString n2s (js_prop utterance ''speaker'')\<rparr>)"

text \<open>\<^verbatim>\<open>adaptResponse\<close> (providers/deepgram/adapters.ts). The guard is the optional
  chain \<^verbatim>\<open>response.results?.channels?.[0]?.alternatives?.[0]\<close>; when it is truthy the
  same path without \<^verbatim>\<open>?.\<close> gives the same value.\<close>

definition Deepgram_adaptResponse :: "(real \<Rightarrow> string) \<Rightarrow> jsval \<Rightarrow> exn + TranscriptionResult" where
  "Deepgram_adaptResponse n2s response =
     bindE (get_prop response ''results'') (\<lambda>results.
       let alternative = idx0 (js_prop (idx0 (js_prop results ''channels'')) ''alternatives'') in
       if truthy alternative then
         bindE (if truthy (js_prop alternative ''words'')
                then bindE (forEach_items (js_prop alternative ''words'')) (mapE (Deepgram_word n2s))
                else Inr []) (\<lambda>ws.
         bindE (if truthy (js_prop results ''utterances'')
                then bindE (forEach_items (js_prop results ''utterances''))
                       (mapE (Deepgram_segment n2s))
                else Inr []) (\<lambda>sgs.
           Inr \<lparr>r_text = js_prop alternative ''transcript'',
                r_language = js_or (js_prop (js_prop response ''metadata'') ''language'')
                               (JStr ''unknown''),
                r_confidence = js_prop alternative ''confidence'',
                r_words = ws, r_segments = sgs\<rparr>))
       else
         Inr \<lparr>r_text = js_or (js_prop response ''transcript'') (JStr []),
              r_language = JStr ''unknown'', r_confidence = JUndef,
              r_words = [], r_segments = []\<rparr>)"

text \<open>The pairs appended to \<^verbatim>\<open>queryParams\<close>: the model, then every translated entry
  whose value is neither \<^verbatim>\<open>undefined\<close> nor \<^verbatim>\<open>null\<close>, as a string.\<close>

definition Deepgram_queryParams ::
  "(real \<Rightarrow> string) \<Rightarrow> jsobj \<Rightarrow> jsobj \<Rightarrow> (string \<times> string) list" where
  "Deepgram_queryParams n2s request translatedParams =
     (''model'', js_toString n2s (obj_get request ''model''))
       # map (\<lambda>(key, value). (key, js_toString n2s value))
           (filter (\<lambda>(key, value). value \<noteq> JUndef \<and> value \<noteq> JNull) translatedParams)"

definition Deepgram_audioData :: "env \<Rightarrow> jsval \<Rightarrow> bytes comp" where
  "Deepgram_audioData env file =
     (case file of
        JStr path \<Rightarrow> ([ReadFileSync path], readFileSync env path)
      | JBuffer bs \<Rightarrow> ([], Inr bs)
      | JUint8Array bs \<Rightarrow> ([], Inr bs)
      | _ \<Rightarrow> ([], Inl (ASR (ASRError ''Unsupported audio input type'' Deepgram_name
                              (Some ''INVALID_INPUT'')))))"

text \<open>\<^verbatim>\<open>options?.timeout ? AbortSignal.timeout(options.timeout) : undefined\<close>\<close>

definition timeout_signal :: "jsobj option \<Rightarrow> jsval option" where
  "timeout_signal options =
     (case options of
        None \<Rightarrow> None
      | Some opts \<Rightarrow>
          if truthy (obj_get opts ''timeout'') then Some (obj_get opts ''timeout'') else None)"

definition Deepgram_transcribe ::
  "env \<Rightarrow> DeepgramASRProvider \<Rightarrow> jsobj \<Rightarrow> jsobj option \<Rightarrow> TranscriptionResult comp" where
  "Deepgram_transcribe env this request options =
     catch_wrap ''Deepgram ASR error: '' Deepgram_name
       (bindC (Deepgram_validateParams (obj_get request ''model'') request) (\<lambda>_.
        let queryParams =
              Deepgram_queryParams (number_toString env) request
                (Deepgram_translateParams (obj_get request ''model'') request)
        in bindC (Deepgram_audioData env (obj_get request ''file'')) (\<lambda>audioData.
          let url = baseURL this @ ''/listen?'' @ URLSearchParams_toString queryParams;
              init = \<lparr>http_method = ''POST'',
                      headers = [(''Authorization'', ''Token '' @ apiKey this),
                                 (''Content-Type'', ''audio/wav'')],
                      body = audioData,
                      signal = timeout_signal options\<rparr>
          in bindC ([Fetch url init], fetch env url init) (\<lambda>response.
               if \<not> ok response then
                 ([], Inl (ASR (ASRError
                    (''Deepgram API error: '' @ nat_toString (status response) @ '' ''
                       @ statusText response)
                    Deepgram_name (Some ''API_ERROR''))))
               else
                 bindC ([], json response) (\<lambda>result.
                   ([], Deepgram_adaptResponse (number_toString env) result))))))"

section \<open>Google Cloud provider (providers/google)\<close>

definition Google_name :: string where
  "Google_name = ''google''"

definition Google_supported :: "string list" where
  "Google_supported =
     [''language'', ''timestamps'', ''word_confidence'', ''speaker_labels'',
      ''enable_word_time_offsets'', ''enable_word_confidence'',
      ''enable_speaker_diarization'', ''diarization_speaker_count'',
      ''enable_automatic_punctuation'']"

fun Google_validateParams :: "jsval \<Rightarrow> jsobj \<Rightarrow> unit comp" where
  "Google_validateParams model [] = ([], Inr ())"
| "Google_validateParams model ((key, value) # rest) =
     bindC
       (if key \<notin> set Google_supported \<and> \<not> startsWith key ''google_'' then
          ([Warn (''Parameter '' @ squote key @ '' may not be supported by Google Cloud ASR'')],
           Inr ())
        else ([], Inr ()))
       (\<lambda>_. Google_validateParams model rest)"



text \<open>A time offset \<^verbatim>\<open>t\<close> of the response, as the adapter combines it:
  \<^verbatim>\<open>parseFloat(t?.seconds || '0') + (parseFloat(t?.nanos || '0') / 1e9)\<close>.\<close>

definition Google_seconds :: "jsval \<Rightarrow> jsval" where
  "Google_seconds t =
     JNum (num_add (parseFloat (js_or (js_prop t ''seconds'') (JStr ''0'')))
                   (num_div (parseFloat (js_or (js_prop t ''nanos'') (JStr ''0'')))
                            (Fin 1000000000)))"

definition Google_word :: "(real \<Rightarrow> string) \<Rightarrow> jsval \<Rightarrow> exn + Word" where
  "Google_word n2s w =
     bindE (get_prop w ''word'') (\<lambda>t.
       Inr \<lparr>w_text = t,
            w_start = Google_seconds (js_prop w ''startTime''),
            w_end = Google_seconds (js_prop w ''endTime''),
            w_speaker = opt_toString n2s (js_prop w ''speakerTag''),
            w_confidence = js_prop w ''confidence''\<rparr>)"

text \<open>The callback of \<^verbatim>\<open>response.results.forEach\<close>, on the three variables it
  updates: \<^verbatim>\<open>fullTranscript\<close>, \<^verbatim>\<open>words\<close> and \<^verbatim>\<open>segments\<close>.\<close>

definition Google_result ::
  "(real \<Rightarrow> string) \<Rightarrow> string \<times> Word list \<times> Segment list \<Rightarrow> jsval
     \<Rightarrow> exn + (string \<times> Word list \<times> Segment list)" where
  "Google_result n2s st result =
     (case st of (fullTranscript, ws, sgs) \<Rightarrow>
        bindE (get_prop result ''alternatives'') (\<lambda>alternatives.
          if truthy alternatives \<and> truthy (idx0 alternatives) then
            (let alternative = idx0 alternatives in
             bindE (if truthy (js_prop alternative ''words'')
                    then bindE (forEach_items (js_prop alternative ''words''))
                           (mapE (Google_word n2s))
                    else Inr []) (\<lambda>new_ws.
               Inr (fullTranscript @ js_toString n2s (js_prop alternative ''transcript'') @ '' '',
                    ws @ new_ws,
                    sgs @ [\<lparr>s_text = js_prop alternative ''transcript'',
                             s_start = Google_seconds (js_prop result ''resultEndTime''),
                             s_end = Google_seconds (js_prop result ''resultEndTime''),
                             s_speaker = JUndef\<rparr>])))
          else Inr (fullTranscript, ws, sgs)))"

definition Google_adaptResponse :: "(real \<Rightarrow> string) \<Rightarrow> jsval \<Rightarrow> exn + TranscriptionResult" where
  "Google_adaptResponse n2s response =
     bindE (get_prop response ''results'') (\<lambda>results.
     bindE (if truthy results
            then bindE (forEach_items results) (foldE (Google_result n2s) ([], [], []))
            else Inr ([], [], [])) (\<lambda>st.
       case st of (fullTranscript, ws, sgs) \<Rightarrow>
         Inr \<lparr>r_text = JStr (trim fullTranscript),
              r_language = js_or (js_prop (idx0 results) ''languageCode'') (JStr ''unknown''),
              r_confidence = js_prop (idx0 (js_prop (idx0 results) ''alternatives'')) ''confidence'',
              r_words = ws, r_segments = sgs\<rparr>))"

definition Google_audioData :: "env \<Rightarrow> jsval \<Rightarrow> bytes comp" where
  "Google_audioData env file =
     (case file of
        JStr path \<Rightarrow> ([ReadFileSync path], readFileSync env path)
      | JBuffer bs \<Rightarrow> ([], Inr bs)
      | JUint8Array bs \<Rightarrow> ([], Inr bs)
      | _ \<Rightarrow> ([], Inl (ASR (ASRError ''Unsupported audio input type'' Google_name
                              (Some ''INVALID_INPUT'')))))"

definition mockResponse :: jsval where
  "mockResponse =
     JObj [(''results'', JArr [JObj [(''alternatives'', JArr [JObj
       [(''transcript'', JStr ''Mock transcription from Google Cloud Speech-to-Text''),
        (''confidence'', JNum (Fin 0.95)),
        (''words'', JArr
           [JObj [(''word'', JStr ''Mock''),
                  (''startTime'', JObj [(''seconds'', JStr ''0''), (''nanos'', JNum (Fin 0))]),
                  (''endTime'', JObj [(''seconds'', JStr ''1''), (''nanos'', JNum (Fin 0))]),
                  (''confidence'', JNum (Fin 0.95))],
            JObj [(''word'', JStr ''transcription''),
                  (''startTime'', JObj [(''seconds'', JStr ''1''), (''nanos'', JNum (Fin 0))]),
                  (''endTime'', JObj [(''seconds'', JStr ''2''), (''nanos'', JNum (Fin 0))]),
                  (''confidence'', JNum (Fin 0.95))]])]])]])]"

text \<open>
  \<^verbatim>\<open>transcribe\<close>: after the audio has been read, the method builds a request body that
  nothing uses (no effect, no exception), and returns what \<^verbatim>\<open>adaptResponse\<close> makes of
  the canned \<^verbatim>\<open>mockResponse\<close>; the \<^verbatim>\<open>fetch\<close> is commented out. \<^verbatim>\<open>options\<close> is not
  used.
\<close>

definition Google_transcribe ::
  "env \<Rightarrow> GoogleCloudConfig \<Rightarrow> jsobj \<Rightarrow> jsobj option \<Rightarrow> TranscriptionResult comp" where
  "Google_transcribe env this request options =
     catch_wrap ''Google Cloud ASR error: '' Google_name
       (bindC (Google_validateParams (obj_get request ''model'') request) (\<lambda>_.
        bindC (Google_audioData env (obj_get request ''file'')) (\<lambda>audioData.
          ([], Google_adaptResponse (number_toString env) mockResponse))))"

section \<open>Dispatch client (client.ts)\<close>

datatype BaseASRProvider =
    OpenAIASRProvider OpenAIASRConfig
  | DeepgramASRProvider DeepgramASRProvider
  | GoogleCloudASRProvider GoogleCloudConfig








section \<open>Example environments\<close>

text \<open>
  Environments for evaluating the model on concrete calls: every file read, every
  \<^verbatim>\<open>fetch\<close> and every SDK call gets the given answer, and numbers print as their
  integer part does (which is how an integer prints).
\<close>

definition int_toString :: "real \<Rightarrow> string" where
  "int_toString r =
     (if r < 0 then ''-'' @ nat_toString (nat \<lfloor>- r\<rfloor>) else nat_toString (nat \<lfloor>r\<rfloor>))"

definition example_env :: "(exn + bytes) \<Rightarrow> (exn + fetch_response) \<Rightarrow> (exn + jsval) \<Rightarrow> env" where
  "example_env file_answer fetch_answer sdk_answer =
     \<lparr>readFileSync = (\<lambda>path. file_answer),
      fetch = (\<lambda>url init. fetch_answer),
      transcriptions_create = (\<lambda>config request. sdk_answer),
      number_toString = int_toString\<rparr>"

definition offline_env :: env where
  "offline_env =
     example_env (Inl (Err ''Error'' ''ENOENT: no such file or directory''))
       (Inl (Err ''TypeError'' ''fetch failed''))
       (Inl (Err ''Error'' ''Connection error.''))"

section \<open>Vocabulary of the properties\<close>

text \<open>\<^verbatim>\<open>AudioInput = string | Buffer | Uint8Array\<close> (types/common.ts), as a run-time test.\<close>

fun AudioInput :: "jsval \<Rightarrow> bool" where
  "AudioInput (JStr path) = True"
| "AudioInput (JBuffer bs) = True"
| "AudioInput (JUint8Array bs) = True"
| "AudioInput v = False"

text \<open>The effects that reach a backend.\<close>

fun is_remote_call :: "effect \<Rightarrow> bool" where
  "is_remote_call (Fetch url init) = True"
| "is_remote_call (TranscriptionsCreate config request) = True"
| "is_remote_call e = False"




section \<open>The model identifier parser\<close>

lemma split_not_Nil: "split c s \<noteq> []"
  by (induction s) (auto split: list.splits)

lemma length_split: "length (split c s) = Suc (count_list s c)"
  by (induction s) (auto split: list.splits simp: split_not_Nil)

lemma split_no_sep: "c \<notin> set s \<Longrightarrow> split c s = [s]"
  by (induction s) auto

lemma split_append: "c \<notin> set p \<Longrightarrow> split c (p @ c # m) = p # split c m"
  by (induction p) auto

lemma split_one: "c \<notin> set p \<Longrightarrow> c \<notin> set m \<Longrightarrow> split c (p @ c # m) = [p, m]"
  by (simp add: split_append split_no_sep)

text \<open>
  Claim C2, as the code has it. For an identifier \<open>p:m\<close> whose two segments are non-empty
  and free of colons, \<^const>\<open>parseModel\<close> returns provider \<open>p\<close> and model \<open>m\<close>. An
  identifier whose number of colons is not one is rejected with the message
  \<^verbatim>\<open>Invalid model format: "<identifier>". Expected format: "provider:model"\<close>. An
  identifier with one colon and an empty segment is rejected with the message
  \<^verbatim>\<open>Invalid model format: "<identifier>". Both provider and model name are required.\<close>
  Every rejection is a plain \<^verbatim>\<open>Error\<close> whose message contains the identifier verbatim.
\<close>

theorem parseModel_correct:
  "(p \<noteq> [] \<and> m \<noteq> [] \<and> CHR '':'' \<notin> set p \<and> CHR '':'' \<notin> set m \<longrightarrow>
      parseModel (p @ '':'' @ m) = Inr \<lparr>pm_provider = p, pm_model = m\<rparr>)
   \<and> (count_list s CHR '':'' \<noteq> 1 \<longrightarrow>
      parseModel s = Inl (Err ''Error''
        (''Invalid model format: \"'' @ s @ ''\". Expected format: \"provider:model\"'')))
   \<and> (CHR '':'' \<notin> set p \<and> CHR '':'' \<notin> set m \<and> (p = [] \<or> m = []) \<longrightarrow>
      parseModel (p @ '':'' @ m) = Inl (Err ''Error''
        (''Invalid model format: \"'' @ p @ '':'' @ m
           @ ''\". Both provider and model name are required.'')))
   \<and> (parseModel s = Inl e \<longrightarrow> (\<exists>msg. e = Err ''Error'' msg \<and> sublist s msg))"
proof (intro conjI impI)
  assume "p \<noteq> [] \<and> m \<noteq> [] \<and> CHR '':'' \<notin> set p \<and> CHR '':'' \<notin> set m"
  then show "parseModel (p @ '':'' @ m) = Inr \<lparr>pm_provider = p, pm_model = m\<rparr>"
    by (simp add: parseModel_def split_one)
next
  assume "count_list s CHR '':'' \<noteq> 1"
  then show "parseModel s = Inl (Err ''Error''
        (''Invalid model format: \"'' @ s @ ''\". Expected format: \"provider:model\"''))"
    by (simp add: parseModel_def length_split)
next
  assume "CHR '':'' \<notin> set p \<and> CHR '':'' \<notin> set m \<and> (p = [] \<or> m = [])"
  then show "parseModel (p @ '':'' @ m) = Inl (Err ''Error''
        (''Invalid model format: \"'' @ p @ '':'' @ m
           @ ''\". Both provider and model name are required.''))"
    by (auto simp add: parseModel_def split_one)
next
  assume "parseModel s = Inl e"
  then have "e = Err ''Error''
          (''Invalid model format: \"'' @ s @ ''\". Expected format: \"provider:model\"'')
     \<or> e = Err ''Error''
          (''Invalid model format: \"'' @ s @ ''\". Both provider and model name are required.'')"
    by (auto simp add: parseModel_def Let_def split: if_splits)
  moreover have "sublist s (''Invalid model format: \"'' @ s @ t)" for t
    by (rule sublist_appendI)
  ultimately show "\<exists>msg. e = Err ''Error'' msg \<and> sublist s msg"
    by auto
qed

theorem parseModel_correct_witness:
  "parseModel ''deepgram:nova-2'' = Inr \<lparr>pm_provider = ''deepgram'', pm_model = ''nova-2''\<rparr>
   \<and> parseModel ''openai:whisper:1'' = Inl (Err ''Error''
        ''Invalid model format: \"openai:whisper:1\". Expected format: \"provider:model\"'')
   \<and> parseModel ''openai:'' = Inl (Err ''Error''
        ''Invalid model format: \"openai:\". Both provider and model name are required.'')
   \<and> sublist ''openai:''
        ''Invalid model format: \"openai:\". Both provider and model name are required.''"
  using parseModel_correct [of "''deepgram''" "''nova-2''" "''openai:whisper:1''"
      "Err ''Error''
         ''Invalid model format: \"openai:whisper:1\". Expected format: \"provider:model\"''"]
    parseModel_correct [of "''openai''" "[]" "''openai:''"
      "Err ''Error''
         ''Invalid model format: \"openai:\". Both provider and model name are required.''"]
  by simp

text \<open>
  Claim C2 as stated fails twice. With \<open>p = a:b\<close> and \<open>m = c\<close> (non-empty, no colon in
  \<open>m\<close>) the identifier \<open>a:b:c\<close> is rejected, not parsed; and the message for an empty
  segment does not name the \<open>provider:model\<close> shape.
\<close>

theorem parseModel_counterexample:
  "parseModel (''a:b'' @ '':'' @ ''c'') \<noteq> Inr \<lparr>pm_provider = ''a:b'', pm_model = ''c''\<rparr>
   \<and> parseModel '':whisper-1'' = Inl (Err ''Error''
        ''Invalid model format: \":whisper-1\". Both provider and model name are required.'')
   \<and> \<not> sublist ''provider:model''
        ''Invalid model format: \":whisper-1\". Both provider and model name are required.''"
  apply (intro conjI)
    apply (simp add: parseModel_def)
   apply (simp add: parseModel_def)
  apply code_simp
  done

section \<open>Parameter validation\<close>

lemma snd_bindC_Inr [simp]: "snd m = Inr x \<Longrightarrow> snd (bindC m f) = snd (f x)"
  by (simp add: bindC_def)

lemma fst_bindC_Inr [simp]: "snd m = Inr x \<Longrightarrow> fst (bindC m f) = fst m @ fst (f x)"
  by (simp add: bindC_def)



lemma Google_validateParams_result: "snd (Google_validateParams model params) = Inr ()"
  by (induction params) (auto simp: bindC_def)


lemma Google_validateParams_warns:
  "fst (Google_validateParams model params) =
     map (\<lambda>k. Warn (''Parameter '' @ squote k @ '' may not be supported by Google Cloud ASR''))
       (filter (\<lambda>k. k \<notin> set Google_supported \<and> \<not> startsWith k ''google_'') (map fst params))"
  by (induction params) (auto simp: bindC_def Google_validateParams_result)




section \<open>Dispatch\<close>





section \<open>Parameter translation\<close>





















section \<open>Audio input\<close>


lemma Google_validateParams_eq:
  "Google_validateParams model params = (fst (Google_validateParams model params), Inr ())"
  by (simp add: prod_eq_iff Google_validateParams_result)


lemma no_remote_Google_validateParams:
  "filter is_remote_call (fst (Google_validateParams model params)) = []"
  by (simp add: Google_validateParams_warns filter_map o_def)






lemma fst_catch_wrap [simp]: "fst (catch_wrap l n m) = fst m"
  by (simp add: catch_wrap_def split: sum.splits exn.splits)






section \<open>Responses that do not have the expected shape\<close>

lemma snd_catch_wrap:
  "snd (catch_wrap l n m) =
     (case snd m of
        Inr x \<Rightarrow> Inr x
      | Inl (ASR a) \<Rightarrow> Inl (ASR a)
      | Inl (Err c msg) \<Rightarrow> Inl (ASR (ASRError (l @ msg) n (Some ''API_ERROR'')))
      | Inl (Thrown v) \<Rightarrow> Inl (ASR (ASRError (l @ ''Unknown error'') n (Some ''API_ERROR''))))"
  by (simp add: catch_wrap_def split: sum.splits exn.splits)



lemma get_prop_nullish: "nullish v \<Longrightarrow> \<exists>msg. get_prop v k = Inl (Err ''TypeError'' msg)"
  by (cases v) (simp_all add: get_prop_def)

lemma bindE_Inr [simp]: "bindE (Inr x) f = f x"
  by (simp add: bindE_def)

lemma bindE_Inl [simp]: "bindE (Inl e) f = Inl e"
  by (simp add: bindE_def)


lemma Deepgram_adaptResponse_nullish:
  assumes "nullish response"
  shows "\<exists>msg. Deepgram_adaptResponse n2s response = Inl (Err ''TypeError'' msg)"
  using get_prop_nullish [OF assms, of "''results''"]
  by (auto simp add: Deepgram_adaptResponse_def)


lemma OpenAI_adaptResponse_nullish:
  assumes "nullish response"
  shows "\<exists>msg. OpenAI_adaptResponse response = Inl (Err ''TypeError'' msg)"
  using get_prop_nullish [OF assms, of "''words''"]
  by (auto simp add: OpenAI_adaptResponse_def)













lemma bindE_error:
  assumes "bindE m f = Inl e"
    and "m = Inl e \<Longrightarrow> P" and "\<And>x. m = Inr x \<Longrightarrow> f x = Inl e \<Longrightarrow> P"
  shows P
  using assms by (cases m) auto
















section \<open>Words of a normalised response\<close>





























section \<open>The Google provider's canned result\<close>

lemma Google_adaptResponse_mockResponse:
  "Google_adaptResponse n2s mockResponse =
     Inr \<lparr>r_text = JStr ''Mock transcription from Google Cloud Speech-to-Text'',
          r_language = JStr ''unknown'', r_confidence = JNum (Fin 0.95),
          r_words =
            [\<lparr>w_text = JStr ''Mock'', w_start = JNum (Fin 0), w_end = JNum (Fin 1),
              w_speaker = JUndef, w_confidence = JNum (Fin 0.95)\<rparr>,
             \<lparr>w_text = JStr ''transcription'', w_start = JNum (Fin 1), w_end = JNum (Fin 2),
              w_speaker = JUndef, w_confidence = JNum (Fin 0.95)\<rparr>],
          r_segments =
            [\<lparr>s_text = JStr ''Mock transcription from Google Cloud Speech-to-Text'',
              s_start = JNum (Fin 0), s_end = JNum (Fin 0), s_speaker = JUndef\<rparr>]\<rparr>"
  by (simp add: Google_adaptResponse_def mockResponse_def get_prop_def js_prop_def
      obj_get_def forEach_items_def Google_result_def idx0_def Google_word_def
      Google_seconds_def js_or_def parseFloat_str_def parse_decimal_def is_space_def
      startsWith_def is_digit_def digits_val_def digit_val_def pow10_def parse_exponent_def
      opt_toString_def trim_def)

lemma Google_transcribe_read:
  assumes "snd (Google_audioData env (obj_get request ''file'')) = Inr audio"
  shows "snd (Google_transcribe env gc request options) =
           Google_adaptResponse (number_toString env) mockResponse"
  unfolding Google_transcribe_def
  apply (subst Google_validateParams_eq)
  apply (simp add: snd_catch_wrap bindC_def assms Google_adaptResponse_mockResponse)
  done

lemma Google_transcribe_unreadable:
  assumes "snd (Google_audioData env (obj_get request ''file'')) = Inl (Err c msg)"
  shows "snd (Google_transcribe env gc request options) =
           Inl (ASR (ASRError (''Google Cloud ASR error: '' @ msg) ''google'' (Some ''API_ERROR'')))"
  unfolding Google_transcribe_def
  apply (subst Google_validateParams_eq)
  apply (simp add: snd_catch_wrap bindC_def assms Google_name_def)
  done

lemma no_remote_Google_audioData:
  "filter is_remote_call (fst (Google_audioData env f)) = []"
  by (cases f) (simp_all add: Google_audioData_def)

lemma no_remote_Google_transcribe:
  "filter is_remote_call (fst (Google_transcribe env gc request options)) = []"
  unfolding Google_transcribe_def
  apply (subst Google_validateParams_eq)
  apply (simp add: bindC_def no_remote_Google_validateParams no_remote_Google_audioData
      split: sum.splits)
  done

text \<open>
  Claim C10, as the code has it. The Google provider's \<^verbatim>\<open>transcribe\<close> never performs a
  remote call. When the audio is a \<^verbatim>\<open>Buffer\<close>, a \<^verbatim>\<open>Uint8Array\<close>, or a path that
  \<^verbatim>\<open>fs.readFileSync\<close> reads, it returns, whatever the bytes, the other entries of the
  request and the options, the fixed result: text
  \<^verbatim>\<open>Mock transcription from Google Cloud Speech-to-Text\<close>, language \<^verbatim>\<open>unknown\<close>,
  confidence 0.95, the two words from second 0 to 1 and from 1 to 2, and one segment.
  When the audio is a path whose read throws an \<^verbatim>\<open>Error\<close>, it fails with code
  \<^verbatim>\<open>API_ERROR\<close> and that error's message.
\<close>

theorem Google_transcribe_mock:
  "(obj_get request ''file'' = JBuffer bs \<or> obj_get request ''file'' = JUint8Array bs
      \<or> obj_get request ''file'' = JStr path \<and> readFileSync env path = Inr bs \<longrightarrow>
      snd (Google_transcribe env gc request options) =
        Inr \<lparr>r_text = JStr ''Mock transcription from Google Cloud Speech-to-Text'',
             r_language = JStr ''unknown'', r_confidence = JNum (Fin 0.95),
             r_words =
               [\<lparr>w_text = JStr ''Mock'', w_start = JNum (Fin 0), w_end = JNum (Fin 1),
                 w_speaker = JUndef, w_confidence = JNum (Fin 0.95)\<rparr>,
                \<lparr>w_text = JStr ''transcription'', w_start = JNum (Fin 1), w_end = JNum (Fin 2),
                 w_speaker = JUndef, w_confidence = JNum (Fin 0.95)\<rparr>],
             r_segments =
               [\<lparr>s_text = JStr ''Mock transcription from Google Cloud Speech-to-Text'',
                 s_start = JNum (Fin 0), s_end = JNum (Fin 0), s_speaker = JUndef\<rparr>]\<rparr>)
   \<and> filter is_remote_call (fst (Google_transcribe env gc request options)) = []
   \<and> (obj_get request ''file'' = JStr path \<and> readFileSync env path = Inl (Err c msg) \<longrightarrow>
      snd (Google_transcribe env gc request options) =
        Inl (ASR (ASRError (''Google Cloud ASR error: '' @ msg) ''google'' (Some ''API_ERROR''))))"
proof (intro conjI impI)
  assume "obj_get request ''file'' = JBuffer bs \<or> obj_get request ''file'' = JUint8Array bs
      \<or> obj_get request ''file'' = JStr path \<and> readFileSync env path = Inr bs"
  then have "snd (Google_audioData env (obj_get request ''file'')) = Inr bs"
    by (auto simp add: Google_audioData_def)
  then show "snd (Google_transcribe env gc request options) =
        Inr \<lparr>r_text = JStr ''Mock transcription from Google Cloud Speech-to-Text'',
             r_language = JStr ''unknown'', r_confidence = JNum (Fin 0.95),
             r_words =
               [\<lparr>w_text = JStr ''Mock'', w_start = JNum (Fin 0), w_end = JNum (Fin 1),
                 w_speaker = JUndef, w_confidence = JNum (Fin 0.95)\<rparr>,
                \<lparr>w_text = JStr ''transcription'', w_start = JNum (Fin 1), w_end = JNum (Fin 2),
                 w_speaker = JUndef, w_confidence = JNum (Fin 0.95)\<rparr>],
             r_segments =
               [\<lparr>s_text = JStr ''Mock transcription from Google Cloud Speech-to-Text'',
                 s_start = JNum (Fin 0), s_end = JNum (Fin 0), s_speaker = JUndef\<rparr>]\<rparr>"
    unfolding Google_adaptResponse_mockResponse [symmetric, of "number_toString env"]
    by (rule Google_transcribe_read)
next
  show "filter is_remote_call (fst (Google_transcribe env gc request options)) = []"
    by (rule no_remote_Google_transcribe)
next
  assume "obj_get request ''file'' = JStr path \<and> readFileSync env path = Inl (Err c msg)"
  then have "snd (Google_audioData env (obj_get request ''file'')) = Inl (Err c msg)"
    by (simp add: Google_audioData_def)
  then show "snd (Google_transcribe env gc request options) =
        Inl (ASR (ASRError (''Google Cloud ASR error: '' @ msg) ''google'' (Some ''API_ERROR'')))"
    by (rule Google_transcribe_unreadable)
qed


theorem Google_transcribe_mock_witness:
  "snd (Google_transcribe offline_env
          \<lparr>projectId = ''test-project'', region = Some ''us-central1'', keyFilename = None,
            credentials = None\<rparr>
          [(''model'', JStr ''latest_long''), (''file'', JBuffer [82, 73, 70, 70]),
           (''language'', JStr ''fr-FR''), (''speaker_labels'', JBool True)]
          (Some [(''timeout'', JNum (Fin 5000))])) =
     Inr \<lparr>r_text = JStr ''Mock transcription from Google Cloud Speech-to-Text'',
          r_language = JStr ''unknown'', r_confidence = JNum (Fin 0.95),
          r_words =
            [\<lparr>w_text = JStr ''Mock'', w_start = JNum (Fin 0), w_end = JNum (Fin 1),
              w_speaker = JUndef, w_confidence = JNum (Fin 0.95)\<rparr>,
             \<lparr>w_text = JStr ''transcription'', w_start = JNum (Fin 1), w_end = JNum (Fin 2),
              w_speaker = JUndef, w_confidence = JNum (Fin 0.95)\<rparr>],
          r_segments =
            [\<lparr>s_text = JStr ''Mock transcription from Google Cloud Speech-to-Text'',
              s_start = JNum (Fin 0), s_end = JNum (Fin 0), s_speaker = JUndef\<rparr>]\<rparr>
   \<and> snd (Google_transcribe offline_env
          \<lparr>projectId = ''test-project'', region = Some ''us-central1'', keyFilename = None,
            credentials = None\<rparr>
          [(''model'', JStr ''latest_long''), (''file'', JStr ''missing.wav'')] None) =
     Inl (ASR (ASRError ''Google Cloud ASR error: ENOENT: no such file or directory''
                 ''google'' (Some ''API_ERROR'')))"
proof -
  let ?gc = "\<lparr>projectId = ''test-project'', region = Some ''us-central1'', keyFilename = None,
            credentials = None\<rparr>"
  let ?req1 = "[(''model'', JStr ''latest_long''), (''file'', JBuffer [82, 73, 70, 70]),
           (''language'', JStr ''fr-FR''), (''speaker_labels'', JBool True)]"
  let ?req2 = "[(''model'', JStr ''latest_long''), (''file'', JStr ''missing.wav'')]"
  have h1: "obj_get ?req1 ''file'' = JBuffer [82, 73, 70, 70]
      \<or> obj_get ?req1 ''file'' = JUint8Array [82, 73, 70, 70]
      \<or> obj_get ?req1 ''file'' = JStr ''missing.wav''
        \<and> readFileSync offline_env ''missing.wav'' = Inr [82, 73, 70, 70]"
    by (simp add: obj_get_def)
  have h2: "obj_get ?req2 ''file'' = JStr ''missing.wav''
      \<and> readFileSync offline_env ''missing.wav'' =
          Inl (Err ''Error'' ''ENOENT: no such file or directory'')"
    by (simp add: obj_get_def offline_env_def example_env_def)
  note 1 = Google_transcribe_mock [of ?req1 "[82, 73, 70, 70]" "''missing.wav''" offline_env ?gc
      "Some [(''timeout'', JNum (Fin 5000))]" "''Error''" "''ENOENT: no such file or directory''",
      THEN conjunct1, THEN mp, OF h1]
  note 2 = Google_transcribe_mock [of ?req2 "[82, 73, 70, 70]" "''missing.wav''" offline_env ?gc
      None "''Error''" "''ENOENT: no such file or directory''",
      THEN conjunct2, THEN conjunct2, THEN mp, OF h2]
  from 1 2 show ?thesis by simp
qed

text \<open>
  Claim C10 as stated fails: a path string is a recognised representation and validation
  passes, but when the file cannot be read the call fails instead of returning the fixed
  result.
\<close>

theorem Google_transcribe_mock_counterexample:
  "snd (Google_transcribe offline_env
          \<lparr>projectId = ''test-project'', region = None, keyFilename = None,
            credentials = None\<rparr>
          [(''model'', JStr ''latest_long''), (''file'', JStr ''missing.wav'')] None) =
     Inl (ASR \<lparr>name = ''ASRError'',
                message = ''Google Cloud ASR error: ENOENT: no such file or directory'',
                provider = ''google'', code = Some ''API_ERROR''\<rparr>)
   \<and> AudioInput (JStr ''missing.wav'')
   \<and> snd (Google_validateParams (JStr ''latest_long'')
          [(''model'', JStr ''latest_long''), (''file'', JStr ''missing.wav'')]) = Inr ()"
proof (intro conjI)
  let ?req = "[(''model'', JStr ''latest_long''), (''file'', JStr ''missing.wav'')]"
  have "snd (Google_audioData offline_env (obj_get ?req ''file'')) =
      Inl (Err ''Error'' ''ENOENT: no such file or directory'')"
    by (simp add: obj_get_def offline_env_def example_env_def Google_audioData_def)
  from Google_transcribe_unreadable [OF this]
  show "snd (Google_transcribe offline_env
          \<lparr>projectId = ''test-project'', region = None, keyFilename = None,
            credentials = None\<rparr> ?req None) =
     Inl (ASR \<lparr>name = ''ASRError'',
                message = ''Google Cloud ASR error: ENOENT: no such file or directory'',
                provider = ''google'', code = Some ''API_ERROR''\<rparr>)"
    by (simp add: ASRError_def)
qed (simp_all add: Google_validateParams_result)

section \<open>The request as parameter set\<close>







































section \<open>The timeout option\<close>

text \<open>
  Claim C8 asks that \<^verbatim>\<open>options.timeout\<close> bound the remote call of every adapter. The OpenAI
  provider's \<^verbatim>\<open>transcribe\<close> never reads its \<^verbatim>\<open>options\<close>: its outcome and its effects are
  those of a call without options, and with a timeout of 1000 ms the SDK is called with
  the request alone. The Deepgram provider, on the same options, hands \<^verbatim>\<open>fetch\<close> the
  signal \<^verbatim>\<open>AbortSignal.timeout(1000)\<close>.
\<close>

theorem OpenAI_transcribe_ignores_timeout:
  "OpenAI_transcribe env oa request options = OpenAI_transcribe env oa request None
   \<and> fst (OpenAI_transcribe offline_env
           \<lparr>oa_apiKey = ''k'', oa_baseURL = None, oa_organization = None\<rparr>
           [(''model'', JStr ''whisper-1''), (''file'', JBuffer [82, 73, 70, 70])]
           (Some [(''timeout'', JNum (Fin 1000))])) =
     [Warn ''Parameter 'model' may not be supported by OpenAI ASR'',
      Warn ''Parameter 'file' may not be supported by OpenAI ASR'',
      TranscriptionsCreate \<lparr>oa_apiKey = ''k'', oa_baseURL = None, oa_organization = None\<rparr>
        [(''file'', JBuffer [82, 73, 70, 70]), (''model'', JStr ''whisper-1'')]]
   \<and> fst (Deepgram_transcribe offline_env
           \<lparr>apiKey = ''k'', baseURL = ''https://api.deepgram.com/v1''\<rparr>
           [(''model'', JStr ''nova-2''), (''file'', JBuffer [82, 73, 70, 70])]
           (Some [(''timeout'', JNum (Fin 1000))])) =
     [Warn ''Parameter 'model' may not be supported by Deepgram ASR'',
      Warn ''Parameter 'file' may not be supported by Deepgram ASR'',
      Fetch ''https://api.deepgram.com/v1/listen?model=nova-2&model=nova-2&file=RIFF''
        \<lparr>http_method = ''POST'',
          headers = [(''Authorization'', ''Token k''), (''Content-Type'', ''audio/wav'')],
          body = [82, 73, 70, 70], signal = Some (JNum (Fin 1000))\<rparr>]"
proof (intro conjI)
  show "OpenAI_transcribe env oa request options = OpenAI_transcribe env oa request None"
    by (simp add: OpenAI_transcribe_def)
  show "fst (OpenAI_transcribe offline_env
           \<lparr>oa_apiKey = ''k'', oa_baseURL = None, oa_organization = None\<rparr>
           [(''model'', JStr ''whisper-1''), (''file'', JBuffer [82, 73, 70, 70])]
           (Some [(''timeout'', JNum (Fin 1000))])) =
     [Warn ''Parameter 'model' may not be supported by OpenAI ASR'',
      Warn ''Parameter 'file' may not be supported by OpenAI ASR'',
      TranscriptionsCreate \<lparr>oa_apiKey = ''k'', oa_baseURL = None, oa_organization = None\<rparr>
        [(''file'', JBuffer [82, 73, 70, 70]), (''model'', JStr ''whisper-1'')]]"
    by code_simp
  show "fst (Deepgram_transcribe offline_env
           \<lparr>apiKey = ''k'', baseURL = ''https://api.deepgram.com/v1''\<rparr>
           [(''model'', JStr ''nova-2''), (''file'', JBuffer [82, 73, 70, 70])]
           (Some [(''timeout'', JNum (Fin 1000))])) =
     [Warn ''Parameter 'model' may not be supported by Deepgram ASR'',
      Warn ''Parameter 'file' may not be supported by Deepgram ASR'',
      Fetch ''https://api.deepgram.com/v1/listen?model=nova-2&model=nova-2&file=RIFF''
        \<lparr>http_method = ''POST'',
          headers = [(''Authorization'', ''Token k''), (''Content-Type'', ''audio/wav'')],
          body = [82, 73, 70, 70], signal = Some (JNum (Fin 1000))\<rparr>]"
    by code_simp
qed

end
